theory Spec2Isabelle
  imports Main
begin

section \<open>Execution contexts and waiter nodes\<close>

text \<open>
  A \<^verbatim>\<open>boost::context::fcontext_t\<close> is an opaque handle to a suspended stack; the model
  keeps only its identity, that is, which suspended caller it resumes.

  \<^verbatim>\<open>FContextCons\<close> is the cell of the singly linked list of waiting contexts. A cell is
  written once, when \<^verbatim>\<open>await\<close> links it, and never changed afterwards, so the pointer
  \<^verbatim>\<open>nextPointer\<close> is modelled by the cell it points to (\<open>None\<close> is \<^verbatim>\<open>nullptr\<close>).
\<close>

type_synonym fcontext_t = nat

datatype FContextCons =
  FContextCons (context': fcontext_t) (nextPointer: "FContextCons option")

section \<open>Exceptions and the ways a call ends\<close>

text \<open>
  What a C++ \<^verbatim>\<open>throw\<close> can raise, as far as the handlers of this library tell the
  cases apart:
  \<^item> \<open>FutureAlreadyFulfilled\<close>: an object of \<^verbatim>\<open>struct FutureAlreadyFulfilled\<close>, thrown by
    value; the handlers \<^verbatim>\<open>catch (FutureAlreadyFulfilled)\<close> match it;
  \<^item> \<open>FutureAlreadyFulfilled_ptr\<close>: a \<^verbatim>\<open>FutureAlreadyFulfilled*\<close>, what
    \<^verbatim>\<open>throw new FutureAlreadyFulfilled\<close> raises; a handler for the class does not match
    a pointer to it;
  \<^item> \<open>Declared e\<close>: any other exception that \<^verbatim>\<open>catch (E e)\<close> matches, \<open>E\<close> the error
    type of the Future;
  \<^item> \<open>Other x\<close>: anything else.
\<close>

datatype ('e, 'x) exn =
  FutureAlreadyFulfilled
| FutureAlreadyFulfilled_ptr
| Declared 'e
| Other 'x

text \<open>
  The ways the process stops: \<^verbatim>\<open>std::unexpected()\<close> (it does not return; its default
  handler terminates), \<^verbatim>\<open>std::terminate()\<close> after the message of \<^verbatim>\<open>Scheduler::loop\<close>
  on \<^verbatim>\<open>std::cerr\<close>,
  \<^verbatim>\<open>std::terminate()\<close> for an exception that leaves a \<^verbatim>\<open>noexcept\<close> function, and the
  undefined \<^verbatim>\<open>front()\<close> of an empty \<^verbatim>\<open>std::deque\<close>.
\<close>

datatype stop =
  Std_unexpected
| Std_terminate_diagnostic
| Std_terminate
| Front_of_empty_deque

text \<open>
  The outcome of a call, seen from its caller: it returns a value in a new state, it
  throws in a new state, the process stops, control is switched to another context
  (\<^verbatim>\<open>jump_fcontext\<close>) and the call has not returned, or the fuel of the model ran out
  (the call is still running).
\<close>

datatype ('a, 'w, 'e, 'x) outcome =
  Return 'a 'w
| Throw "('e, 'x) exn" 'w
| Abort stop
| Jumped fcontext_t 'w
| Diverge

text \<open>Sequencing of two statements, and \<^verbatim>\<open>try { ... } catch\<close>.\<close>

fun and_then ::
  "('a, 'w, 'e, 'x) outcome \<Rightarrow> ('a \<Rightarrow> 'w \<Rightarrow> ('b, 'w, 'e, 'x) outcome) \<Rightarrow> ('b, 'w, 'e, 'x) outcome"
where
  "and_then (Return a w) k = k a w"
| "and_then (Throw x w) k = Throw x w"
| "and_then (Abort s) k = Abort s"
| "and_then (Jumped c w) k = Jumped c w"
| "and_then Diverge k = Diverge"

fun try_catch ::
  "('a, 'w, 'e, 'x) outcome \<Rightarrow> (('e, 'x) exn \<Rightarrow> 'w \<Rightarrow> ('a, 'w, 'e, 'x) outcome) \<Rightarrow> ('a, 'w, 'e, 'x) outcome"
where
  "try_catch (Throw x w) h = h x w"
| "try_catch r h = r"

text \<open>
  The dynamic exception specification \<^verbatim>\<open>throw (FutureAlreadyFulfilled)\<close> of
  \<^verbatim>\<open>complete\<close>, \<^verbatim>\<open>setError\<close>, \<^verbatim>\<open>setUnexpected\<close> and \<^verbatim>\<open>setResult\<close>: an exception of
  another type that leaves the function calls \<^verbatim>\<open>std::unexpected()\<close>.
\<close>

fun throw_spec :: "('a, 'w, 'e, 'x) outcome \<Rightarrow> ('a, 'w, 'e, 'x) outcome" where
  "throw_spec (Throw FutureAlreadyFulfilled w) = Throw FutureAlreadyFulfilled w"
| "throw_spec (Throw x w) = Abort Std_unexpected"
| "throw_spec r = r"

section \<open>The state: one Scheduler and its Futures\<close>

datatype State = UNRESOLVED | SUCCESS | FAILURE | UNEXPECTED

text \<open>
  \<^verbatim>\<open>union Contents\<close>: one of its three members is stored. A constructor is a write of
  that member; the selectors \<open>cons\<close>, \<open>error\<close> and \<open>result\<close> are the reads
  \<^verbatim>\<open>contents.cons\<close>, \<^verbatim>\<open>contents.error\<close> and \<^verbatim>\<open>contents.result\<close>, unspecified on another
  member as the read of the union is.
\<close>

datatype ('v, 'e) Contents =
  as_cons (cons: "FContextCons option")
| as_error (error: 'e)
| as_result (result: 'v)

record ('v, 'e) FutureBase =
  state :: State
  contents :: "('v, 'e) Contents"

text \<open>
  The two lambdas that \<^verbatim>\<open>Scheduler::spawn\<close> pushes, each with what it captures by
  copy: the pointer \<^verbatim>\<open>fut\<close> and the callable \<^verbatim>\<open>call\<close> (named by a number; the program
  below says what it does).
\<close>

datatype task =
  Task_value nat nat
| Task_void nat nat

record Scheduler =
  ready :: "fcontext_t list"
  tasks :: "task list"

text \<open>
  The memory the library works on: the Scheduler, the Futures by address, and the next
  free address for \<^verbatim>\<open>new\<close>.
\<close>

record ('v, 'e) world =
  scheduler :: Scheduler
  futures :: "nat \<Rightarrow> ('v, 'e) FutureBase"
  heap_top :: nat

text \<open>
  The code of the caller: the callback of the Scheduler and the callables handed to
  \<^verbatim>\<open>spawn\<close>, each by its effect on the state from call to return.
\<close>

record ('v, 'e, 'x) program =
  innerCallback :: "('v, 'e) world \<Rightarrow> (unit, ('v, 'e) world, 'e, 'x) outcome"
  call_value :: "nat \<Rightarrow> ('v, 'e) world \<Rightarrow> ('v, ('v, 'e) world, 'e, 'x) outcome"
  call_void :: "nat \<Rightarrow> ('v, 'e) world \<Rightarrow> (unit, ('v, 'e) world, 'e, 'x) outcome"

text \<open>Assignments to the members \<^verbatim>\<open>state\<close> and \<^verbatim>\<open>contents\<close> of the Future at \<open>this\<close>.\<close>

definition set_state :: "nat \<Rightarrow> State \<Rightarrow> ('v, 'e) world \<Rightarrow> ('v, 'e) world" where
  "set_state this s w = w\<lparr>futures := (futures w)(this := (futures w this)\<lparr>state := s\<rparr>)\<rparr>"

definition set_contents :: "nat \<Rightarrow> ('v, 'e) Contents \<Rightarrow> ('v, 'e) world \<Rightarrow> ('v, 'e) world" where
  "set_contents this c w = w\<lparr>futures := (futures w)(this := (futures w this)\<lparr>contents := c\<rparr>)\<rparr>"

section \<open>Scheduler::notifyReady\<close>

fun notifyReady :: "FContextCons option \<Rightarrow> Scheduler \<Rightarrow> Scheduler" where
  "notifyReady None s = s"
| "notifyReady (Some (FContextCons c n)) s = notifyReady n (s\<lparr>ready := ready s @ [c]\<rparr>)"

section \<open>The completion operations of FutureBase and Future\<close>

definition complete_body :: "nat \<Rightarrow> ('v, 'e) world \<Rightarrow> (unit, ('v, 'e) world, 'e, 'x) outcome" where
  "complete_body this w =
     (if state (futures w this) \<noteq> UNRESOLVED then Throw FutureAlreadyFulfilled_ptr w
      else if cons (contents (futures w this)) \<noteq> None
      then Return () (w\<lparr>scheduler := notifyReady (cons (contents (futures w this))) (scheduler w)\<rparr>)
      else Return () w)"

definition complete :: "nat \<Rightarrow> ('v, 'e) world \<Rightarrow> (unit, ('v, 'e) world, 'e, 'x) outcome" where
  "complete this w = throw_spec (complete_body this w)"

definition setError :: "nat \<Rightarrow> 'e \<Rightarrow> ('v, 'e) world \<Rightarrow> (unit, ('v, 'e) world, 'e, 'x) outcome" where
  "setError this newError w =
     throw_spec (and_then (complete this w) (\<lambda>_ w1.
       Return () (set_contents this (as_error newError) (set_state this FAILURE w1))))"

definition setUnexpected :: "nat \<Rightarrow> ('v, 'e) world \<Rightarrow> (unit, ('v, 'e) world, 'e, 'x) outcome" where
  "setUnexpected this w =
     throw_spec (and_then (complete this w) (\<lambda>_ w1.
       Return () (set_state this UNEXPECTED w1)))"

definition setResult :: "nat \<Rightarrow> 'v \<Rightarrow> ('v, 'e) world \<Rightarrow> (unit, ('v, 'e) world, 'e, 'x) outcome" where
  "setResult this newResult w =
     throw_spec (and_then (complete this w) (\<lambda>_ w1.
       Return () (set_contents this (as_result newResult) (set_state this SUCCESS w1))))"

text \<open>\<^verbatim>\<open>Future<void, ErrorType>::setResult()\<close>: no payload is stored.\<close>

definition setResult_void :: "nat \<Rightarrow> ('v, 'e) world \<Rightarrow> (unit, ('v, 'e) world, 'e, 'x) outcome" where
  "setResult_void this w =
     throw_spec (and_then (complete this w) (\<lambda>_ w1.
       Return () (set_state this SUCCESS w1)))"

section \<open>Scheduler::spawn and the task closures\<close>

text \<open>\<^verbatim>\<open>new Future<R, E>(*this)\<close>: the constructor sets UNRESOLVED and a null list.\<close>

definition new_Future :: "('v, 'e) world \<Rightarrow> nat \<times> ('v, 'e) world" where
  "new_Future w =
     (heap_top w,
      w\<lparr>futures := (futures w)(heap_top w := \<lparr>state = UNRESOLVED, contents = as_cons None\<rparr>),
        heap_top := Suc (heap_top w)\<rparr>)"

definition push_task :: "task \<Rightarrow> ('v, 'e) world \<Rightarrow> ('v, 'e) world" where
  "push_task t w = w\<lparr>scheduler := (scheduler w)\<lparr>tasks := tasks (scheduler w) @ [t]\<rparr>\<rparr>"

definition spawn :: "nat \<Rightarrow> ('v, 'e) world \<Rightarrow> nat \<times> ('v, 'e) world" where
  "spawn call w = (let (fut, w1) = new_Future w in (fut, push_task (Task_value fut call) w1))"

definition spawn_void :: "nat \<Rightarrow> ('v, 'e) world \<Rightarrow> nat \<times> ('v, 'e) world" where
  "spawn_void call w = (let (fut, w1) = new_Future w in (fut, push_task (Task_void fut call) w1))"

text \<open>
  The three handlers of both lambdas, in the order of the source: the first rethrows,
  the second stores the error, the third records the unexpected failure.
\<close>

fun handlers :: "nat \<Rightarrow> ('e, 'x) exn \<Rightarrow> ('v, 'e) world \<Rightarrow> (unit, ('v, 'e) world, 'e, 'x) outcome" where
  "handlers fut FutureAlreadyFulfilled w = Throw FutureAlreadyFulfilled w"
| "handlers fut (Declared e) w = setError fut e w"
| "handlers fut x w = setUnexpected fut w"

definition closure_value ::
  "('v, 'e, 'x) program \<Rightarrow> nat \<Rightarrow> nat \<Rightarrow> ('v, 'e) world \<Rightarrow> (unit, ('v, 'e) world, 'e, 'x) outcome"
where
  "closure_value prog fut call w =
     try_catch (and_then (call_value prog call w) (\<lambda>v w1. setResult fut v w1)) (handlers fut)"

definition closure_void ::
  "('v, 'e, 'x) program \<Rightarrow> nat \<Rightarrow> nat \<Rightarrow> ('v, 'e) world \<Rightarrow> (unit, ('v, 'e) world, 'e, 'x) outcome"
where
  "closure_void prog fut call w =
     try_catch (and_then (call_void prog call w) (\<lambda>_ w1. setResult_void fut w1)) (handlers fut)"

fun run_task ::
  "('v, 'e, 'x) program \<Rightarrow> task \<Rightarrow> ('v, 'e) world \<Rightarrow> (unit, ('v, 'e) world, 'e, 'x) outcome"
where
  "run_task prog (Task_value fut call) w = closure_value prog fut call w"
| "run_task prog (Task_void fut call) w = closure_void prog fut call w"

section \<open>Scheduler::loop and Scheduler::waitUntilReady\<close>

text \<open>
  What one pass of the \<^verbatim>\<open>while\<close> body did, with the state it started from: it ran the
  task it popped, or it called the callback.
\<close>

datatype ('v, 'e) event =
  Task_run task "('v, 'e) world"
| Progress_step "('v, 'e) world"

definition pop_task :: "('v, 'e) world \<Rightarrow> ('v, 'e) world" where
  "pop_task w = w\<lparr>scheduler := (scheduler w)\<lparr>tasks := tl (tasks (scheduler w))\<rparr>\<rparr>"

definition loop_body ::
  "('v, 'e, 'x) program \<Rightarrow> ('v, 'e) world \<Rightarrow> ('v, 'e) event \<times> (unit, ('v, 'e) world, 'e, 'x) outcome"
where
  "loop_body prog w =
     (if length (tasks (scheduler w)) > 0
      then (let task = hd (tasks (scheduler w)) in (Task_run task w, run_task prog task (pop_task w)))
      else (Progress_step w, innerCallback prog w))"

text \<open>
  The \<^verbatim>\<open>while (ready.size() == 0)\<close> loop inside the \<^verbatim>\<open>try\<close> block. The fuel bounds the
  number of passes; the result lists the passes made and says how the loop ended.
\<close>

fun poll ::
  "('v, 'e, 'x) program \<Rightarrow> nat \<Rightarrow> ('v, 'e) world \<Rightarrow>
     ('v, 'e) event list \<times> (unit, ('v, 'e) world, 'e, 'x) outcome"
where
  "poll prog 0 w = ([], if length (ready (scheduler w)) = 0 then Diverge else Return () w)"
| "poll prog (Suc n) w =
     (if length (ready (scheduler w)) = 0
      then (case loop_body prog w of
              (ev, Return _ w') \<Rightarrow> (let (evs, r) = poll prog n w' in (ev # evs, r))
            | (ev, r) \<Rightarrow> ([ev], r))
      else ([], Return () w))"

text \<open>
  \<^verbatim>\<open>Scheduler::loop\<close>: the handler of the \<^verbatim>\<open>try\<close> block prints and terminates; any other
  exception leaves a \<^verbatim>\<open>noexcept\<close> function; after the loop the front of \<^verbatim>\<open>ready\<close> is
  taken, popped and jumped to.
\<close>

definition loop ::
  "('v, 'e, 'x) program \<Rightarrow> nat \<Rightarrow> ('v, 'e) world \<Rightarrow> (unit, ('v, 'e) world, 'e, 'x) outcome"
where
  "loop prog n w =
     (case snd (poll prog n w) of
        Return _ w' \<Rightarrow>
          (case ready (scheduler w') of
             [] \<Rightarrow> Abort Front_of_empty_deque
           | exitContext # rest \<Rightarrow>
               Jumped exitContext (w'\<lparr>scheduler := (scheduler w')\<lparr>ready := rest\<rparr>\<rparr>))
      | Throw FutureAlreadyFulfilled w' \<Rightarrow> Abort Std_terminate_diagnostic
      | Throw x w' \<Rightarrow> Abort Std_terminate
      | Abort s \<Rightarrow> Abort s
      | Jumped c w' \<Rightarrow> Jumped c w'
      | Diverge \<Rightarrow> Diverge)"

text \<open>
  \<^verbatim>\<open>Scheduler::waitUntilReady\<close>: the caller is saved in \<open>ctx\<close> and the loop runs on a
  fresh stack. The call returns when a jump targets \<open>ctx\<close>; a jump to another context
  leaves this caller suspended. Allocation and release of the stack are not modelled.
\<close>

definition waitUntilReady ::
  "('v, 'e, 'x) program \<Rightarrow> nat \<Rightarrow> fcontext_t \<Rightarrow> ('v, 'e) world \<Rightarrow> (unit, ('v, 'e) world, 'e, 'x) outcome"
where
  "waitUntilReady prog n ctx w =
     (case loop prog n w of
        Jumped c w' \<Rightarrow> if c = ctx then Return () w' else Jumped c w'
      | r \<Rightarrow> r)"

section \<open>Future::await\<close>

text \<open>
  The first two statements of the UNRESOLVED case: a cell on the stack of the caller,
  whose \<^verbatim>\<open>nextPointer\<close> is the old head, becomes the head. Its \<^verbatim>\<open>context\<close> is the one that
  \<^verbatim>\<open>waitUntilReady\<close> saves the caller in.
\<close>

definition link_waiter :: "fcontext_t \<Rightarrow> nat \<Rightarrow> ('v, 'e) world \<Rightarrow> ('v, 'e) world" where
  "link_waiter ctx this w =
     set_contents this (as_cons (Some (FContextCons ctx (cons (contents (futures w this)))))) w"

text \<open>
  \<^verbatim>\<open>Future<ValueType, ErrorType>::await\<close>, for the caller whose context is \<open>ctx\<close>. The fuel
  bounds the calls of \<^verbatim>\<open>await\<close> (the first and its re-dispatches) and the passes of each
  loop entered. The only exception thrown is of \<^verbatim>\<open>ErrorType\<close>, which the specification
  \<^verbatim>\<open>throw(ErrorType)\<close> lets through.
\<close>

fun await ::
  "('v, 'e, 'x) program \<Rightarrow> nat \<Rightarrow> fcontext_t \<Rightarrow> nat \<Rightarrow> ('v, 'e) world \<Rightarrow>
     ('v, ('v, 'e) world, 'e, 'x) outcome"
where
  "await prog 0 ctx this w = Diverge"
| "await prog (Suc n) ctx this w =
     (case state (futures w this) of
        SUCCESS \<Rightarrow> Return (result (contents (futures w this))) w
      | FAILURE \<Rightarrow> Throw (Declared (error (contents (futures w this)))) w
      | UNEXPECTED \<Rightarrow> Abort Std_unexpected
      | UNRESOLVED \<Rightarrow>
          and_then (waitUntilReady prog n ctx (link_waiter ctx this w))
            (\<lambda>_ w'. await prog n ctx this w'))"

text \<open>\<^verbatim>\<open>Future<void, ErrorType>::await\<close>.\<close>

fun await_void ::
  "('v, 'e, 'x) program \<Rightarrow> nat \<Rightarrow> fcontext_t \<Rightarrow> nat \<Rightarrow> ('v, 'e) world \<Rightarrow>
     (unit, ('v, 'e) world, 'e, 'x) outcome"
where
  "await_void prog 0 ctx this w = Diverge"
| "await_void prog (Suc n) ctx this w =
     (case state (futures w this) of
        SUCCESS \<Rightarrow> Return () w
      | FAILURE \<Rightarrow> Throw (Declared (error (contents (futures w this)))) w
      | UNEXPECTED \<Rightarrow> Abort Std_unexpected
      | UNRESOLVED \<Rightarrow>
          and_then (waitUntilReady prog n ctx (link_waiter ctx this w))
            (\<lambda>_ w'. await_void prog n ctx this w'))"

section \<open>Notions used to state the properties\<close>

text \<open>The contexts of a waiter list, from its head to its tail.\<close>

fun waiters :: "FContextCons option \<Rightarrow> fcontext_t list" where
  "waiters None = []"
| "waiters (Some (FContextCons c n)) = c # waiters n"

text \<open>
  The state in which \<^verbatim>\<open>complete\<close> returns for an unresolved Future: \<^verbatim>\<open>notifyReady\<close> has
  been called on the head of its list, and nothing else has changed.
\<close>

definition notified :: "nat \<Rightarrow> ('v, 'e) world \<Rightarrow> ('v, 'e) world" where
  "notified this w = w\<lparr>scheduler := notifyReady (cons (contents (futures w this))) (scheduler w)\<rparr>"

text \<open>The state a pass of the loop started from.\<close>

fun started_from :: "('v, 'e) event \<Rightarrow> ('v, 'e) world" where
  "started_from (Task_run t w) = w"
| "started_from (Progress_step w) = w"

text \<open>
  A program none of whose callables ends in the undefined \<^verbatim>\<open>front()\<close> of an empty
  deque (they may contain loops of their own).
\<close>

definition front_safe :: "('v, 'e, 'x) program \<Rightarrow> bool" where
  "front_safe prog \<longleftrightarrow>
     (\<forall>w. innerCallback prog w \<noteq> Abort Front_of_empty_deque) \<and>
     (\<forall>c w. call_value prog c w \<noteq> Abort Front_of_empty_deque) \<and>
     (\<forall>c w. call_void prog c w \<noteq> Abort Front_of_empty_deque)"

subsection \<open>Concrete states and programs\<close>

text \<open>
  A Scheduler with empty queues, every address holding a Future as its constructor
  leaves it.
\<close>

definition blank :: "('v, 'e) world" where
  "blank = \<lparr>scheduler = \<lparr>ready = [], tasks = []\<rparr>,
            futures = (\<lambda>_. \<lparr>state = UNRESOLVED, contents = as_cons None\<rparr>), heap_top = 0\<rparr>"

text \<open>A program whose callables return at once, and one whose callables throw at once.\<close>

definition returning :: "'v \<Rightarrow> ('v, 'e, 'x) program" where
  "returning v =
     \<lparr>innerCallback = (\<lambda>w. Return () w),
      call_value = (\<lambda>c w. Return v w),
      call_void = (\<lambda>c w. Return () w)\<rparr>"

definition throwing :: "('e, 'x) exn \<Rightarrow> ('v, 'e, 'x) program" where
  "throwing x =
     \<lparr>innerCallback = (\<lambda>w. Throw x w),
      call_value = (\<lambda>c w. Throw x w),
      call_void = (\<lambda>c w. Throw x w)\<rparr>"

type_synonym int_world = "(int, unit) world"
type_synonym 'a int_outcome = "('a, (int, unit) world, unit, unit) outcome"
type_synonym int_program = "(int, unit, unit) program"

text \<open>The Future at address 0 after \<^verbatim>\<open>setResult(1)\<close> on a fresh Scheduler.\<close>

definition fulfilled_1 :: int_world where
  "fulfilled_1 = set_contents 0 (as_result 1) (set_state 0 SUCCESS (notified 0 blank))"

text \<open>
  The caller with context 7 has spawned callable 0 on a fresh Scheduler and, in
  \<^verbatim>\<open>await\<close> on the Future returned, has linked its cell: the state in which
  \<^verbatim>\<open>waitUntilReady\<close> is entered.
\<close>

definition waiting_7 :: int_world where
  "waiting_7 = link_waiter 7 0 (snd (spawn 0 blank))"

text \<open>The same state after the task has run with a callable that returned 5.\<close>

definition resolved_5 :: int_world where
  "resolved_5 = set_contents 0 (as_result 5) (set_state 0 SUCCESS (notified 0 (pop_task waiting_7)))"

text \<open>
  The state after the callers with contexts \<open>cs\<close>, in this order, have each linked a
  cell to the Future at \<open>this\<close> (each is then suspended).
\<close>

definition suspend_all :: "fcontext_t list \<Rightarrow> nat \<Rightarrow> ('v, 'e) world \<Rightarrow> ('v, 'e) world" where
  "suspend_all cs this w = foldl (\<lambda>w c. link_waiter c this w) w cs"


text \<open>The call returned and left the Future at \<open>fut\<close> with this state and these contents.\<close>

definition completes_with ::
  "(unit, ('v, 'e) world, 'e, 'x) outcome \<Rightarrow> nat \<Rightarrow> State \<Rightarrow> ('v, 'e) Contents \<Rightarrow> bool"
where
  "completes_with r fut s c =
     (case r of
        Return _ w \<Rightarrow> state (futures w fut) = s \<and> contents (futures w fut) = c
      | _ \<Rightarrow> False)"




text \<open>The state after the loop has jumped to context 7.\<close>

definition resumed_5 :: int_world where
  "resumed_5 = resolved_5\<lparr>scheduler := (scheduler resolved_5)\<lparr>ready := []\<rparr>\<rparr>"







text \<open>
  The queue of tasks is private to the Scheduler: between two states it can only have
  lost tasks at its front (popped by a loop) and gained tasks at its back (pushed by
  \<^verbatim>\<open>spawn\<close>). A call keeps the queue when the state it leaves, however it ends, is so
  related to the state it found; a program does when its callback and its callables do.
\<close>

definition queue_step :: "('v, 'e) world \<Rightarrow> ('v, 'e) world \<Rightarrow> bool" where
  "queue_step w w' \<longleftrightarrow> (\<exists>k new. tasks (scheduler w') = drop k (tasks (scheduler w)) @ new)"








section \<open>Basic facts\<close>

lemma ready_notifyReady: "ready (notifyReady h s) = ready s @ waiters h"
  by (induction h s rule: notifyReady.induct) simp_all

lemma tasks_notifyReady: "tasks (notifyReady h s) = tasks s"
  by (induction h s rule: notifyReady.induct) simp_all

lemma futures_notified [simp]: "futures (notified this w) = futures w"
  by (simp add: notified_def)

lemma heap_top_notified [simp]: "heap_top (notified this w) = heap_top w"
  by (simp add: notified_def)

lemma ready_notified:
  "ready (scheduler (notified this w)) = ready (scheduler w) @ waiters (cons (contents (futures w this)))"
  by (simp add: notified_def ready_notifyReady)

lemma tasks_notified [simp]: "tasks (scheduler (notified this w)) = tasks (scheduler w)"
  by (simp add: notified_def tasks_notifyReady)

lemma futures_set_state [simp]:
  "futures (set_state this s w) = (futures w)(this := (futures w this)\<lparr>state := s\<rparr>)"
  by (simp add: set_state_def)

lemma futures_set_contents [simp]:
  "futures (set_contents this c w) = (futures w)(this := (futures w this)\<lparr>contents := c\<rparr>)"
  by (simp add: set_contents_def)

lemma scheduler_set_state [simp]: "scheduler (set_state this s w) = scheduler w"
  by (simp add: set_state_def)

lemma scheduler_set_contents [simp]: "scheduler (set_contents this c w) = scheduler w"
  by (simp add: set_contents_def)

subsection \<open>The completion operations, by the state they find\<close>

lemma complete_unresolved:
  "state (futures w this) = UNRESOLVED \<Longrightarrow> complete this w = Return () (notified this w)"
  by (simp add: complete_def complete_body_def notified_def)

lemma complete_body_resolved:
  "state (futures w this) \<noteq> UNRESOLVED \<Longrightarrow> complete_body this w = Throw FutureAlreadyFulfilled_ptr w"
  by (simp add: complete_body_def)

lemma complete_resolved:
  "state (futures w this) \<noteq> UNRESOLVED \<Longrightarrow> complete this w = Abort Std_unexpected"
  by (simp add: complete_def complete_body_def)

lemma setResult_unresolved:
  "state (futures w this) = UNRESOLVED \<Longrightarrow>
   setResult this v w = Return () (set_contents this (as_result v) (set_state this SUCCESS (notified this w)))"
  by (simp add: setResult_def complete_unresolved)

lemma setResult_void_unresolved:
  "state (futures w this) = UNRESOLVED \<Longrightarrow>
   setResult_void this w = Return () (set_state this SUCCESS (notified this w))"
  by (simp add: setResult_void_def complete_unresolved)

lemma setError_unresolved:
  "state (futures w this) = UNRESOLVED \<Longrightarrow>
   setError this e w = Return () (set_contents this (as_error e) (set_state this FAILURE (notified this w)))"
  by (simp add: setError_def complete_unresolved)

lemma setUnexpected_unresolved:
  "state (futures w this) = UNRESOLVED \<Longrightarrow>
   setUnexpected this w = Return () (set_state this UNEXPECTED (notified this w))"
  by (simp add: setUnexpected_def complete_unresolved)

lemma completion_resolved:
  assumes "state (futures w this) \<noteq> UNRESOLVED"
  shows "setResult this v w = Abort Std_unexpected"
    and "setResult_void this w = Abort Std_unexpected"
    and "setError this e w = Abort Std_unexpected"
    and "setUnexpected this w = Abort Std_unexpected"
  using assms
  by (simp_all add: setResult_def setResult_void_def setError_def setUnexpected_def complete_resolved)

lemma setResult_eq:
  "setResult this v w =
     (if state (futures w this) = UNRESOLVED
      then Return () (set_contents this (as_result v) (set_state this SUCCESS (notified this w)))
      else Abort Std_unexpected)"
  by (simp add: setResult_unresolved completion_resolved)

lemma setResult_void_eq:
  "setResult_void this w =
     (if state (futures w this) = UNRESOLVED
      then Return () (set_state this SUCCESS (notified this w))
      else Abort Std_unexpected)"
  by (simp add: setResult_void_unresolved completion_resolved)

lemma setError_eq:
  "setError this e w =
     (if state (futures w this) = UNRESOLVED
      then Return () (set_contents this (as_error e) (set_state this FAILURE (notified this w)))
      else Abort Std_unexpected)"
  by (simp add: setError_unresolved completion_resolved)

lemma setUnexpected_eq:
  "setUnexpected this w =
     (if state (futures w this) = UNRESOLVED
      then Return () (set_state this UNEXPECTED (notified this w))
      else Abort Std_unexpected)"
  by (simp add: setUnexpected_unresolved completion_resolved)

subsection \<open>The task closures, by the outcome of the callable\<close>

lemma closure_value_Return:
  "call_value prog call w = Return v w1 \<Longrightarrow> closure_value prog fut call w = setResult fut v w1"
  by (simp add: closure_value_def setResult_eq)

lemma closure_value_Throw:
  "call_value prog call w = Throw x w1 \<Longrightarrow> closure_value prog fut call w = handlers fut x w1"
  by (simp add: closure_value_def)

lemma closure_void_Return:
  "call_void prog call w = Return u w1 \<Longrightarrow> closure_void prog fut call w = setResult_void fut w1"
  by (simp add: closure_void_def setResult_void_eq)

lemma closure_void_Throw:
  "call_void prog call w = Throw x w1 \<Longrightarrow> closure_void prog fut call w = handlers fut x w1"
  by (simp add: closure_void_def)

lemma handlers_Abort: "handlers fut x w = Abort s \<Longrightarrow> s = Std_unexpected"
  by (cases x) (simp_all add: setError_eq setUnexpected_eq split: if_splits)

lemma closure_value_Abort:
  "closure_value prog fut call w = Abort s \<Longrightarrow> s = Std_unexpected \<or> call_value prog call w = Abort s"
  by (cases "call_value prog call w")
     (auto simp add: closure_value_Return closure_value_Throw setResult_eq closure_value_def
           dest: handlers_Abort split: if_splits)

lemma closure_void_Abort:
  "closure_void prog fut call w = Abort s \<Longrightarrow> s = Std_unexpected \<or> call_void prog call w = Abort s"
  by (cases "call_void prog call w")
     (auto simp add: closure_void_Return closure_void_Throw setResult_void_eq closure_void_def
           dest: handlers_Abort split: if_splits)

subsection \<open>The polling loop\<close>

lemma loop_body_pending:
  "tasks (scheduler w) = t # rest \<Longrightarrow>
   loop_body prog w = (Task_run t w, run_task prog t (w\<lparr>scheduler := (scheduler w)\<lparr>tasks := rest\<rparr>\<rparr>))"
  by (simp add: loop_body_def pop_task_def)

lemma loop_body_idle:
  "tasks (scheduler w) = [] \<Longrightarrow> loop_body prog w = (Progress_step w, innerCallback prog w)"
  by (simp add: loop_body_def)

lemma started_from_loop_body [simp]: "started_from (fst (loop_body prog w)) = w"
  by (simp add: loop_body_def Let_def)

lemma poll_ready:
  "ready (scheduler w) \<noteq> [] \<Longrightarrow> poll prog n w = ([], Return () w)"
  by (cases n) simp_all

lemma poll_step:
  "ready (scheduler w) = [] \<Longrightarrow>
   poll prog (Suc n) w =
     (case snd (loop_body prog w) of
        Return u w' \<Rightarrow> (fst (loop_body prog w) # fst (poll prog n w'), snd (poll prog n w'))
      | r \<Rightarrow> ([fst (loop_body prog w)], r))"
  by (simp split: prod.splits outcome.splits)

lemma poll_Return_ready:
  "snd (poll prog n w) = Return u w' \<Longrightarrow> ready (scheduler w') \<noteq> []"
proof (induction n arbitrary: w)
  case 0
  then show ?case by (simp split: if_splits)
next
  case (Suc n)
  show ?case
  proof (cases "ready (scheduler w) = []")
    case True
    with Suc.prems Suc.IH show ?thesis
      by (simp add: poll_step del: poll.simps split: outcome.splits)
  next
    case False
    with Suc.prems show ?thesis by (simp add: poll_ready)
  qed
qed

lemma poll_Throw_pass:
  "snd (poll prog n w) = Throw x w' \<Longrightarrow>
   \<exists>w0. ready (scheduler w0) = [] \<and> snd (loop_body prog w0) = Throw x w'"
proof (induction n arbitrary: w)
  case 0
  then show ?case by (simp split: if_splits)
next
  case (Suc n)
  show ?case
  proof (cases "ready (scheduler w) = []")
    case True
    with Suc.prems Suc.IH show ?thesis
      by (auto simp add: poll_step simp del: poll.simps split: outcome.splits)
  next
    case False
    with Suc.prems show ?thesis by (simp add: poll_ready)
  qed
qed


lemma loop_after_poll_Return:
  "snd (poll prog n w) = Return u w' \<Longrightarrow>
   loop prog n w =
     Jumped (hd (ready (scheduler w')))
       (w'\<lparr>scheduler := (scheduler w')\<lparr>ready := tl (ready (scheduler w'))\<rparr>\<rparr>)"
  using poll_Return_ready [of prog n w u w']
  by (cases "ready (scheduler w')") (simp_all add: loop_def)

lemma loop_after_poll_Throw:
  "snd (poll prog n w) = Throw x w' \<Longrightarrow>
   loop prog n w =
     Abort (case x of FutureAlreadyFulfilled \<Rightarrow> Std_terminate_diagnostic | _ \<Rightarrow> Std_terminate)"
  by (cases x) (simp_all add: loop_def)

lemma loop_never_returns: "loop prog n w \<noteq> Return u w'" "loop prog n w \<noteq> Throw x w'"
  by (auto simp add: loop_def split: outcome.splits list.splits exn.splits)

lemma loop_body_front_safe:
  "front_safe prog \<Longrightarrow> snd (loop_body prog w) \<noteq> Abort Front_of_empty_deque"
proof
  assume fs: "front_safe prog" and a: "snd (loop_body prog w) = Abort Front_of_empty_deque"
  show False
  proof (cases "tasks (scheduler w)")
    case Nil
    with a fs show False by (simp add: loop_body_idle front_safe_def)
  next
    case (Cons t rest)
    with a have "run_task prog t (w\<lparr>scheduler := (scheduler w)\<lparr>tasks := rest\<rparr>\<rparr>) = Abort Front_of_empty_deque"
      by (simp add: loop_body_pending)
    with fs show False
      by (cases t) (auto simp add: front_safe_def dest!: closure_value_Abort closure_void_Abort)
  qed
qed

lemma poll_front_safe:
  "front_safe prog \<Longrightarrow> snd (poll prog n w) \<noteq> Abort Front_of_empty_deque"
proof (induction n arbitrary: w)
  case 0
  then show ?case by simp
next
  case (Suc n)
  show ?case
  proof (cases "ready (scheduler w) = []")
    case True
    with Suc.IH [OF Suc.prems] loop_body_front_safe [OF Suc.prems, of w] show ?thesis
      by (auto simp add: poll_step simp del: poll.simps split: outcome.splits)
  next
    case False
    then show ?thesis by (simp add: poll_ready)
  qed
qed

lemma loop_front_safe:
  "front_safe prog \<Longrightarrow> loop prog n w \<noteq> Abort Front_of_empty_deque"
proof
  assume fs: "front_safe prog" and a: "loop prog n w = Abort Front_of_empty_deque"
  show False
  proof (cases "snd (poll prog n w)")
    case (Return u w')
    from loop_after_poll_Return [OF this] a show False by simp
  next
    case (Throw x w')
    from loop_after_poll_Throw [OF this] a show False by (cases x) simp_all
  next
    case (Abort s)
    with a poll_front_safe [OF fs, of n w] show False by (simp add: loop_def)
  next
    case (Jumped c w')
    with a show False by (simp add: loop_def)
  next
    case Diverge
    with a show False by (simp add: loop_def)
  qed
qed

subsection \<open>The concrete states\<close>

lemma waiting_7_eval:
  "scheduler waiting_7 = \<lparr>ready = [], tasks = [Task_value 0 0]\<rparr>"
  "futures waiting_7 0 = \<lparr>state = UNRESOLVED, contents = as_cons (Some (FContextCons 7 None))\<rparr>"
  by (simp_all add: waiting_7_def link_waiter_def spawn_def new_Future_def push_task_def blank_def)

lemma futures_pop_task [simp]: "futures (pop_task w) = futures w"
  by (simp add: pop_task_def)

lemma ready_pop_task [simp]: "ready (scheduler (pop_task w)) = ready (scheduler w)"
  by (simp add: pop_task_def)

lemma ready_resolved_5: "ready (scheduler resolved_5) = [7]"
  by (simp add: resolved_5_def ready_notified waiting_7_eval)

lemma body_returning:
  "loop_body (returning 5 :: int_program) waiting_7 = (Task_run (Task_value 0 0) waiting_7, Return () resolved_5)"
proof -
  have "call_value (returning 5 :: int_program) 0 (pop_task waiting_7) = Return 5 (pop_task waiting_7)"
    by (simp add: returning_def)
  then have "closure_value (returning 5 :: int_program) 0 0 (pop_task waiting_7) = Return () resolved_5"
    by (simp add: closure_value_Return setResult_unresolved waiting_7_eval resolved_5_def)
  then show ?thesis
    by (simp add: loop_body_def waiting_7_eval)
qed

lemma poll_returning:
  "poll (returning 5 :: int_program) (Suc 0) waiting_7 = ([Task_run (Task_value 0 0) waiting_7], Return () resolved_5)"
  by (simp add: poll_step waiting_7_eval body_returning poll_ready ready_resolved_5 del: poll.simps)

lemma poll_throwing:
  "poll (throwing (Other ()) :: int_program) (Suc 0) blank = ([Progress_step blank], Throw (Other ()) blank)"
  by (simp add: blank_def loop_body_def throwing_def)

lemma front_safe_returning: "front_safe (returning v)"
  by (simp add: front_safe_def returning_def)

subsection \<open>Linking waiters\<close>

lemma state_link_waiter [simp]: "state (futures (link_waiter c this w) f) = state (futures w f)"
  by (simp add: link_waiter_def)

lemma scheduler_link_waiter [simp]: "scheduler (link_waiter c this w) = scheduler w"
  by (simp add: link_waiter_def)

lemma contents_link_waiter:
  "contents (futures (link_waiter c this w) this) = as_cons (Some (FContextCons c (cons (contents (futures w this)))))"
  by (simp add: link_waiter_def)

lemma waiters_link_waiter:
  "waiters (cons (contents (futures (link_waiter c this w) this))) = c # waiters (cons (contents (futures w this)))"
  by (simp add: link_waiter_def)

lemma suspend_all_Nil [simp]: "suspend_all [] this w = w"
  by (simp add: suspend_all_def)

lemma suspend_all_snoc [simp]: "suspend_all (cs @ [c]) this w = link_waiter c this (suspend_all cs this w)"
  by (simp add: suspend_all_def)

lemma state_suspend_all [simp]: "state (futures (suspend_all cs this w) f) = state (futures w f)"
  by (induction cs rule: rev_induct) simp_all

lemma scheduler_suspend_all [simp]: "scheduler (suspend_all cs this w) = scheduler w"
  by (induction cs rule: rev_induct) simp_all



subsection \<open>Spawning\<close>

lemma spawn_eval:
  "fst (spawn call w) = heap_top w"
  "tasks (scheduler (snd (spawn call w))) = tasks (scheduler w) @ [Task_value (heap_top w) call]"
  "ready (scheduler (snd (spawn call w))) = ready (scheduler w)"
  "futures (snd (spawn call w)) (heap_top w) = \<lparr>state = UNRESOLVED, contents = as_cons None\<rparr>"
  by (simp_all add: spawn_def new_Future_def push_task_def)

lemma spawn_void_eval:
  "fst (spawn_void call w) = heap_top w"
  "tasks (scheduler (snd (spawn_void call w))) = tasks (scheduler w) @ [Task_void (heap_top w) call]"
  "ready (scheduler (snd (spawn_void call w))) = ready (scheduler w)"
  "futures (snd (spawn_void call w)) (heap_top w) = \<lparr>state = UNRESOLVED, contents = as_cons None\<rparr>"
  by (simp_all add: spawn_void_def new_Future_def push_task_def)

lemma handlers_unexpected:
  "x \<noteq> FutureAlreadyFulfilled \<Longrightarrow> \<forall>e. x \<noteq> Declared e \<Longrightarrow> handlers fut x w = setUnexpected fut w"
  by (cases x) simp_all

subsection \<open>The passes of the polling loop\<close>

lemma tasks_set_state [simp]: "tasks (scheduler (set_state this s w)) = tasks (scheduler w)"
  by simp












subsection \<open>Waiting\<close>

lemma waitUntilReady_eq:
  "waitUntilReady prog n ctx w =
     (case loop prog n w of
        Jumped c w' \<Rightarrow> if c = ctx then Return () w' else Jumped c w'
      | Abort s \<Rightarrow> Abort s
      | Diverge \<Rightarrow> Diverge
      | Return u w' \<Rightarrow> Return u w'
      | Throw x w' \<Rightarrow> Throw x w')"
  by (simp add: waitUntilReady_def split: outcome.splits)

subsection \<open>More concrete states\<close>

lemma loop_returning:
  "loop (returning 5 :: int_program) (Suc 0) waiting_7
     = Jumped 7 (resolved_5\<lparr>scheduler := (scheduler resolved_5)\<lparr>ready := []\<rparr>\<rparr>)"
proof -
  have "snd (poll (returning 5 :: int_program) (Suc 0) waiting_7) = Return () resolved_5"
    by (simp only: poll_returning snd_conv)
  from loop_after_poll_Return [OF this] show ?thesis
    by (simp add: ready_resolved_5)
qed

lemma resumed_5_future: "futures resumed_5 0 = \<lparr>state = SUCCESS, contents = as_result 5\<rparr>"
  by (simp add: resumed_5_def resolved_5_def waiting_7_eval)










subsection \<open>Spawn, then await, on a Scheduler with empty queues\<close>

lemma spawn_await_run:
  assumes r: "ready (scheduler w) = []" and t: "tasks (scheduler w) = []"
  shows "scheduler (link_waiter ctx (fst (spawn call w)) (snd (spawn call w)))
       = \<lparr>ready = [], tasks = [Task_value (fst (spawn call w)) call]\<rparr>"
    and "futures (link_waiter ctx (fst (spawn call w)) (snd (spawn call w))) (fst (spawn call w))
       = \<lparr>state = UNRESOLVED, contents = as_cons (Some (FContextCons ctx None))\<rparr>"
    and "state (futures (snd (spawn call w)) (fst (spawn call w))) = UNRESOLVED"
  using r t
  by (simp_all add: link_waiter_def spawn_def new_Future_def push_task_def)

lemma loop_one_task:
  assumes s: "scheduler w1 = \<lparr>ready = [], tasks = [t]\<rparr>"
    and b: "run_task prog t (pop_task w1) = Return () w2"
    and r: "ready (scheduler w2) = c # rest"
  shows "loop prog (Suc n) w1 = Jumped c (w2\<lparr>scheduler := (scheduler w2)\<lparr>ready := rest\<rparr>\<rparr>)"
proof -
  have "loop_body prog w1 = (Task_run t w1, Return () w2)"
    using s b by (simp add: loop_body_def)
  then have "snd (poll prog (Suc n) w1) = Return () w2"
    using s r by (simp add: poll_step poll_ready del: poll.simps)
  from loop_after_poll_Return [OF this] r show ?thesis by simp
qed

lemma spawn_await_after_task:
  assumes r: "ready (scheduler w) = []" and t: "tasks (scheduler w) = []"
    and b: "run_task prog (Task_value (fst (spawn call w)) call)
              (pop_task (link_waiter ctx (fst (spawn call w)) (snd (spawn call w)))) = Return () w2"
    and q: "ready (scheduler w2) = [ctx]"
  shows "await prog (Suc (Suc n)) ctx (fst (spawn call w)) (snd (spawn call w))
       = await prog (Suc n) ctx (fst (spawn call w)) (w2\<lparr>scheduler := (scheduler w2)\<lparr>ready := []\<rparr>\<rparr>)"
proof -
  let ?fut = "fst (spawn call w)"
  let ?w1 = "link_waiter ctx ?fut (snd (spawn call w))"
  note e = spawn_await_run [OF r t]
  from loop_one_task [OF e(1) b q, of n]
  have "loop prog (Suc n) ?w1 = Jumped ctx (w2\<lparr>scheduler := (scheduler w2)\<lparr>ready := []\<rparr>\<rparr>)" .
  then have "waitUntilReady prog (Suc n) ctx ?w1 = Return () (w2\<lparr>scheduler := (scheduler w2)\<lparr>ready := []\<rparr>\<rparr>)"
    by (simp add: waitUntilReady_def)
  with e(3) show ?thesis by (simp del: await.simps(2) add: await.simps(2) [of prog "Suc n"])
qed

lemma spawn_await_outcomes:
  assumes r: "ready (scheduler w) = []" and t: "tasks (scheduler w) = []"
  shows "(\<forall>w1. call_value prog call w1 = Return v w1) \<longrightarrow>
           (\<exists>w'. await prog (Suc (Suc n)) ctx (fst (spawn call w)) (snd (spawn call w)) = Return v w' \<and>
              state (futures w' (fst (spawn call w))) = SUCCESS \<and>
              scheduler w' = \<lparr>ready = [], tasks = []\<rparr>)"
    and "(\<forall>w1. call_value prog call w1 = Throw (Declared e) w1) \<longrightarrow>
           (\<exists>w'. await prog (Suc (Suc n)) ctx (fst (spawn call w)) (snd (spawn call w)) = Throw (Declared e) w' \<and>
              state (futures w' (fst (spawn call w))) = FAILURE \<and>
              scheduler w' = \<lparr>ready = [], tasks = []\<rparr>)"
    and "(\<forall>w1. call_value prog call w1 = Throw (Other x) w1) \<longrightarrow>
           await prog (Suc (Suc n)) ctx (fst (spawn call w)) (snd (spawn call w)) = Abort Std_unexpected"
proof -
  let ?fut = "fst (spawn call w)"
  let ?w1 = "link_waiter ctx ?fut (snd (spawn call w))"
  note e = spawn_await_run [OF r t]
  have u: "state (futures (pop_task ?w1) ?fut) = UNRESOLVED" by (simp add: e)
  have rq: "ready (scheduler (notified ?fut (pop_task ?w1))) = [ctx]"
    by (simp add: ready_notified spawn_eval r waiters_link_waiter)
  have tq: "tasks (scheduler (pop_task ?w1)) = []"
    by (simp add: pop_task_def spawn_eval t)
  show "(\<forall>w1. call_value prog call w1 = Return v w1) \<longrightarrow>
           (\<exists>w'. await prog (Suc (Suc n)) ctx ?fut (snd (spawn call w)) = Return v w' \<and>
              state (futures w' ?fut) = SUCCESS \<and> scheduler w' = \<lparr>ready = [], tasks = []\<rparr>)"
  proof
    assume c: "\<forall>w1. call_value prog call w1 = Return v w1"
    let ?w2 = "set_contents ?fut (as_result v) (set_state ?fut SUCCESS (notified ?fut (pop_task ?w1)))"
    have b: "run_task prog (Task_value ?fut call) (pop_task ?w1) = Return () ?w2"
      using c u by (simp add: closure_value_Return setResult_unresolved)
    have q: "ready (scheduler ?w2) = [ctx]" using rq by simp
    have s: "scheduler (?w2\<lparr>scheduler := (scheduler ?w2)\<lparr>ready := []\<rparr>\<rparr>) = \<lparr>ready = [], tasks = []\<rparr>"
      using q tq by simp
    from spawn_await_after_task [OF r t b q, of n] s
    show "\<exists>w'. await prog (Suc (Suc n)) ctx ?fut (snd (spawn call w)) = Return v w' \<and>
              state (futures w' ?fut) = SUCCESS \<and> scheduler w' = \<lparr>ready = [], tasks = []\<rparr>"
      by simp
  qed
  show "(\<forall>w1. call_value prog call w1 = Throw (Declared e) w1) \<longrightarrow>
           (\<exists>w'. await prog (Suc (Suc n)) ctx ?fut (snd (spawn call w)) = Throw (Declared e) w' \<and>
              state (futures w' ?fut) = FAILURE \<and> scheduler w' = \<lparr>ready = [], tasks = []\<rparr>)"
  proof
    assume c: "\<forall>w1. call_value prog call w1 = Throw (Declared e) w1"
    let ?w2 = "set_contents ?fut (as_error e) (set_state ?fut FAILURE (notified ?fut (pop_task ?w1)))"
    have b: "run_task prog (Task_value ?fut call) (pop_task ?w1) = Return () ?w2"
      using c u by (simp add: closure_value_Throw setError_unresolved)
    have q: "ready (scheduler ?w2) = [ctx]" using rq by simp
    have s: "scheduler (?w2\<lparr>scheduler := (scheduler ?w2)\<lparr>ready := []\<rparr>\<rparr>) = \<lparr>ready = [], tasks = []\<rparr>"
      using q tq by simp
    from spawn_await_after_task [OF r t b q, of n] s
    show "\<exists>w'. await prog (Suc (Suc n)) ctx ?fut (snd (spawn call w)) = Throw (Declared e) w' \<and>
              state (futures w' ?fut) = FAILURE \<and> scheduler w' = \<lparr>ready = [], tasks = []\<rparr>"
      by simp
  qed
  show "(\<forall>w1. call_value prog call w1 = Throw (Other x) w1) \<longrightarrow>
           await prog (Suc (Suc n)) ctx ?fut (snd (spawn call w)) = Abort Std_unexpected"
  proof
    assume c: "\<forall>w1. call_value prog call w1 = Throw (Other x) w1"
    let ?w2 = "set_state ?fut UNEXPECTED (notified ?fut (pop_task ?w1))"
    have b: "run_task prog (Task_value ?fut call) (pop_task ?w1) = Return () ?w2"
      using c u by (simp add: closure_value_Throw setUnexpected_unresolved)
    have q: "ready (scheduler ?w2) = [ctx]" using rq by simp
    from spawn_await_after_task [OF r t b q, of n]
    show "await prog (Suc (Suc n)) ctx ?fut (snd (spawn call w)) = Abort Std_unexpected"
      by simp
  qed
qed

subsection \<open>Suspending through await\<close>







subsection \<open>The queue of tasks between two states\<close>

lemma queue_step_refl [simp]: "queue_step w w"
  unfolding queue_step_def by (rule exI [of _ 0]) simp


lemma queue_step_tasks_eq:
  "tasks (scheduler w') = tasks (scheduler w1) \<Longrightarrow> queue_step w w1 \<Longrightarrow> queue_step w w'"
  unfolding queue_step_def by (erule ssubst)
















lemma tasks_link_waiter [simp]: "tasks (scheduler (link_waiter c this w)) = tasks (scheduler w)"
  by simp







subsection \<open>A task that awaits\<close>

















section \<open>The claims\<close>

text \<open>
  C1. The claim: at most one completion call succeeds, and every later one raises
  AlreadyFulfilled and changes nothing. On the code, the Future at address 0 of a fresh
  Scheduler takes \<^verbatim>\<open>setResult(1)\<close>; in the state reached, the body of \<^verbatim>\<open>complete\<close> throws
  the pointer of \<^verbatim>\<open>throw new FutureAlreadyFulfilled\<close> and leaves the state as it is, the
  exception specification of \<^verbatim>\<open>complete\<close> does not admit a pointer, and so the call
  \<^verbatim>\<open>setResult(2)\<close> ends in \<^verbatim>\<open>std::unexpected()\<close>: no FutureAlreadyFulfilled reaches the
  caller. The Future stays SUCCESS with the value 1.
\<close>

theorem setResult_twice:
  "setResult 0 1 blank = (Return () fulfilled_1 :: unit int_outcome) \<and>
   complete_body 0 fulfilled_1 = (Throw FutureAlreadyFulfilled_ptr fulfilled_1 :: unit int_outcome) \<and>
   setResult 0 2 fulfilled_1 = (Abort Std_unexpected :: unit int_outcome) \<and>
   state (futures fulfilled_1 0) = SUCCESS \<and> contents (futures fulfilled_1 0) = as_result 1"
proof -
  have u: "state (futures (blank :: int_world) 0) = UNRESOLVED"
    by (simp add: blank_def)
  have r: "state (futures fulfilled_1 0) \<noteq> UNRESOLVED"
    by (simp add: fulfilled_1_def)
  have "setResult 0 1 blank = (Return () fulfilled_1 :: unit int_outcome)"
    by (simp add: setResult_unresolved [OF u] fulfilled_1_def)
  moreover have "complete_body 0 fulfilled_1 = (Throw FutureAlreadyFulfilled_ptr fulfilled_1 :: unit int_outcome)"
    by (rule complete_body_resolved [OF r])
  moreover have "setResult 0 2 fulfilled_1 = (Abort Std_unexpected :: unit int_outcome)"
    by (rule completion_resolved(1) [OF r])
  moreover have "state (futures fulfilled_1 0) = SUCCESS \<and> contents (futures fulfilled_1 0) = as_result 1"
    by (simp add: fulfilled_1_def)
  ultimately show ?thesis by blast
qed

text \<open>
  C2, as stated, fails where the callable raises FutureAlreadyFulfilled (an error of the
  default error type \<^verbatim>\<open>std::exception\<close>, and outside any other error type): callable 0
  is spawned on a fresh Scheduler and throws it when the task is run; the closure
  rethrows, and the Future returned stays UNRESOLVED, neither FAILURE nor UNEXPECTED.
\<close>

theorem spawned_task_raising_FutureAlreadyFulfilled:
  "spawn 0 (blank :: int_world) = (0, snd (spawn 0 blank)) \<and>
   tasks (scheduler (snd (spawn 0 (blank :: int_world)))) = [Task_value 0 0] \<and>
   call_value (throwing FutureAlreadyFulfilled :: int_program) 0 (pop_task (snd (spawn 0 blank)))
     = Throw FutureAlreadyFulfilled (pop_task (snd (spawn 0 blank))) \<and>
   run_task (throwing FutureAlreadyFulfilled :: int_program) (Task_value 0 0) (pop_task (snd (spawn 0 blank)))
     = Throw FutureAlreadyFulfilled (pop_task (snd (spawn 0 blank))) \<and>
   state (futures (pop_task (snd (spawn 0 (blank :: int_world)))) 0) = UNRESOLVED"
  by (simp add: spawn_def new_Future_def push_task_def blank_def throwing_def closure_value_def)

text \<open>
  C2, amended. \<^verbatim>\<open>spawn\<close> pushes at the back of \<^verbatim>\<open>tasks\<close> a closure that captures the Future
  it returns, which is UNRESOLVED. Run when that Future is still UNRESOLVED at the time
  the callable finishes, the closure completes it: with SUCCESS holding the value the
  callable returned (for the void overload with SUCCESS and no payload written), with
  FAILURE holding \<open>e\<close> when the callable threw an \<open>e\<close> that \<^verbatim>\<open>catch (E e)\<close> receives, and
  with UNEXPECTED when it threw anything that is neither FutureAlreadyFulfilled nor
  received by \<^verbatim>\<open>catch (E e)\<close>. A FutureAlreadyFulfilled thrown by the callable is
  rethrown in the state the callable left, so it completes nothing. A pass of the loop that finds the closure at the front
  of \<^verbatim>\<open>tasks\<close> runs it, on the state with the closure popped. So on a Scheduler whose
  queues are empty, \<^verbatim>\<open>spawn\<close> followed by \<^verbatim>\<open>await\<close> on the Future returned drives the
  closure and, for a callable that at once returns \<open>v\<close>, throws such an \<open>e\<close> or throws
  something else, returns \<open>v\<close>, throws \<open>e\<close> or ends in \<^verbatim>\<open>std::unexpected()\<close>, with both
  queues empty again.
\<close>

theorem spawn_closure_completes:
  "tasks (scheduler (snd (spawn call w))) = tasks (scheduler w) @ [Task_value (fst (spawn call w)) call] \<and>
   tasks (scheduler (snd (spawn_void call w))) = tasks (scheduler w) @ [Task_void (fst (spawn_void call w)) call] \<and>
   state (futures (snd (spawn call w)) (fst (spawn call w))) = UNRESOLVED \<and>
   state (futures (snd (spawn_void call w)) (fst (spawn_void call w))) = UNRESOLVED \<and>
   (state (futures w2 fut) = UNRESOLVED \<longrightarrow>
      (call_value prog call w1 = Return v w2 \<longrightarrow>
         completes_with (run_task prog (Task_value fut call) w1) fut SUCCESS (as_result v)) \<and>
      (call_void prog call w1 = Return () w2 \<longrightarrow>
         completes_with (run_task prog (Task_void fut call) w1) fut SUCCESS (contents (futures w2 fut))) \<and>
      (call_value prog call w1 = Throw (Declared e) w2 \<longrightarrow>
         completes_with (run_task prog (Task_value fut call) w1) fut FAILURE (as_error e)) \<and>
      (call_void prog call w1 = Throw (Declared e) w2 \<longrightarrow>
         completes_with (run_task prog (Task_void fut call) w1) fut FAILURE (as_error e)) \<and>
      (x \<noteq> FutureAlreadyFulfilled \<and> (\<forall>e. x \<noteq> Declared e) \<longrightarrow>
         (call_value prog call w1 = Throw x w2 \<longrightarrow>
            completes_with (run_task prog (Task_value fut call) w1) fut UNEXPECTED (contents (futures w2 fut))) \<and>
         (call_void prog call w1 = Throw x w2 \<longrightarrow>
            completes_with (run_task prog (Task_void fut call) w1) fut UNEXPECTED (contents (futures w2 fut))))) \<and>
   (tasks (scheduler w0) = t # rest \<longrightarrow>
      snd (loop_body prog w0) = run_task prog t (w0\<lparr>scheduler := (scheduler w0)\<lparr>tasks := rest\<rparr>\<rparr>)) \<and>
   (ready (scheduler w) = [] \<and> tasks (scheduler w) = [] \<longrightarrow>
      ((\<forall>w1. call_value prog call w1 = Return v w1) \<longrightarrow>
         (\<exists>w'. await prog (Suc (Suc n)) ctx (fst (spawn call w)) (snd (spawn call w)) = Return v w' \<and>
            state (futures w' (fst (spawn call w))) = SUCCESS \<and>
            scheduler w' = \<lparr>ready = [], tasks = []\<rparr>)) \<and>
      ((\<forall>w1. call_value prog call w1 = Throw (Declared e) w1) \<longrightarrow>
         (\<exists>w'. await prog (Suc (Suc n)) ctx (fst (spawn call w)) (snd (spawn call w))
              = Throw (Declared e) w' \<and>
            state (futures w' (fst (spawn call w))) = FAILURE \<and>
            scheduler w' = \<lparr>ready = [], tasks = []\<rparr>)) \<and>
      ((\<forall>w1. call_value prog call w1 = Throw (Other y) w1) \<longrightarrow>
         await prog (Suc (Suc n)) ctx (fst (spawn call w)) (snd (spawn call w)) = Abort Std_unexpected)) \<and>
   (call_value prog call w1 = Throw FutureAlreadyFulfilled w2 \<longrightarrow>
      run_task prog (Task_value fut call) w1 = Throw FutureAlreadyFulfilled w2) \<and>
   (call_void prog call w1 = Throw FutureAlreadyFulfilled w2 \<longrightarrow>
      run_task prog (Task_void fut call) w1 = Throw FutureAlreadyFulfilled w2)"
proof -
  have rethrown:
    "(call_value prog call w1 = Throw FutureAlreadyFulfilled w2 \<longrightarrow>
        run_task prog (Task_value fut call) w1 = Throw FutureAlreadyFulfilled w2) \<and>
     (call_void prog call w1 = Throw FutureAlreadyFulfilled w2 \<longrightarrow>
        run_task prog (Task_void fut call) w1 = Throw FutureAlreadyFulfilled w2)"
    by (simp add: closure_value_Throw closure_void_Throw)
  have closures:
    "tasks (scheduler (snd (spawn call w))) = tasks (scheduler w) @ [Task_value (fst (spawn call w)) call] \<and>
     tasks (scheduler (snd (spawn_void call w))) = tasks (scheduler w) @ [Task_void (fst (spawn_void call w)) call] \<and>
     state (futures (snd (spawn call w)) (fst (spawn call w))) = UNRESOLVED \<and>
     state (futures (snd (spawn_void call w)) (fst (spawn_void call w))) = UNRESOLVED \<and>
     (state (futures w2 fut) = UNRESOLVED \<longrightarrow>
        (call_value prog call w1 = Return v w2 \<longrightarrow>
           completes_with (run_task prog (Task_value fut call) w1) fut SUCCESS (as_result v)) \<and>
        (call_void prog call w1 = Return () w2 \<longrightarrow>
           completes_with (run_task prog (Task_void fut call) w1) fut SUCCESS (contents (futures w2 fut))) \<and>
        (call_value prog call w1 = Throw (Declared e) w2 \<longrightarrow>
           completes_with (run_task prog (Task_value fut call) w1) fut FAILURE (as_error e)) \<and>
        (call_void prog call w1 = Throw (Declared e) w2 \<longrightarrow>
           completes_with (run_task prog (Task_void fut call) w1) fut FAILURE (as_error e)) \<and>
        (x \<noteq> FutureAlreadyFulfilled \<and> (\<forall>e. x \<noteq> Declared e) \<longrightarrow>
           (call_value prog call w1 = Throw x w2 \<longrightarrow>
              completes_with (run_task prog (Task_value fut call) w1) fut UNEXPECTED (contents (futures w2 fut))) \<and>
           (call_void prog call w1 = Throw x w2 \<longrightarrow>
              completes_with (run_task prog (Task_void fut call) w1) fut UNEXPECTED (contents (futures w2 fut))))) \<and>
     (tasks (scheduler w0) = t # rest \<longrightarrow>
        snd (loop_body prog w0) = run_task prog t (w0\<lparr>scheduler := (scheduler w0)\<lparr>tasks := rest\<rparr>\<rparr>))"
    by (simp add: spawn_eval spawn_void_eval closure_value_Return closure_value_Throw
        closure_void_Return closure_void_Throw handlers_unexpected completes_with_def
        setResult_unresolved setResult_void_unresolved setError_unresolved setUnexpected_unresolved
        loop_body_pending)
  from closures rethrown
    spawn_await_outcomes [where w = w and prog = prog and call = call and n = n and ctx = ctx]
  show ?thesis by blast
qed

theorem spawn_closure_completes_witness:
  "state (futures (pop_task waiting_7) 0) = UNRESOLVED \<and>
   call_value (returning 5 :: int_program) 0 (pop_task waiting_7) = Return 5 (pop_task waiting_7) \<and>
   completes_with (run_task (returning 5 :: int_program) (Task_value 0 0) (pop_task waiting_7))
     0 SUCCESS (as_result 5) \<and>
   call_value (throwing (Declared ()) :: int_program) 0 (pop_task waiting_7)
     = Throw (Declared ()) (pop_task waiting_7) \<and>
   completes_with (run_task (throwing (Declared ()) :: int_program) (Task_value 0 0) (pop_task waiting_7))
     0 FAILURE (as_error ()) \<and>
   call_value (throwing (Other ()) :: int_program) 0 (pop_task waiting_7)
     = Throw (Other ()) (pop_task waiting_7) \<and>
   completes_with (run_task (throwing (Other ()) :: int_program) (Task_value 0 0) (pop_task waiting_7))
     0 UNEXPECTED (as_cons (Some (FContextCons 7 None))) \<and>
   call_void (returning 5 :: int_program) 0 (pop_task waiting_7) = Return () (pop_task waiting_7) \<and>
   completes_with (run_task (returning 5 :: int_program) (Task_void 0 0) (pop_task waiting_7))
     0 SUCCESS (as_cons (Some (FContextCons 7 None))) \<and>
   ready (scheduler (blank :: int_world)) = [] \<and> tasks (scheduler (blank :: int_world)) = [] \<and>
   (\<exists>w'. await (returning 5 :: int_program) (Suc (Suc 0)) 7 (fst (spawn 0 (blank :: int_world))) (snd (spawn 0 blank))
        = Return 5 w' \<and>
      state (futures w' (fst (spawn 0 (blank :: int_world)))) = SUCCESS \<and>
      scheduler w' = \<lparr>ready = [], tasks = []\<rparr>) \<and>
   call_value (throwing FutureAlreadyFulfilled :: int_program) 0 (pop_task waiting_7)
     = Throw FutureAlreadyFulfilled (pop_task waiting_7) \<and>
   run_task (throwing FutureAlreadyFulfilled :: int_program) (Task_value 0 0) (pop_task waiting_7)
     = Throw FutureAlreadyFulfilled (pop_task waiting_7)"
proof -
  let ?w = "pop_task waiting_7"
  have u: "state (futures ?w 0) = UNRESOLVED"
    and c: "contents (futures ?w 0) = as_cons (Some (FContextCons 7 None))"
    by (simp_all add: waiting_7_eval)
  have r: "call_value (returning 5 :: int_program) 0 ?w = Return 5 ?w"
    and rv: "call_void (returning 5 :: int_program) 0 ?w = Return () ?w"
    by (simp_all add: returning_def)
  have d: "call_value (throwing (Declared ()) :: int_program) 0 ?w = Throw (Declared ()) ?w"
    and x: "call_value (throwing (Other ()) :: int_program) 0 ?w = Throw (Other ()) ?w"
    by (simp_all add: throwing_def)
  from spawn_closure_completes [of 0 ?w ?w 0 "returning 5 :: int_program" ?w 5 "()" "Other ()"] u r rv
  have 1: "completes_with (run_task (returning 5 :: int_program) (Task_value 0 0) ?w) 0 SUCCESS (as_result 5)"
    and 2: "completes_with (run_task (returning 5 :: int_program) (Task_void 0 0) ?w) 0 SUCCESS
       (contents (futures ?w 0))"
    by blast+
  from spawn_closure_completes [of 0 ?w ?w 0 "throwing (Declared ()) :: int_program" ?w 5 "()" "Other ()"] u d
  have 3: "completes_with (run_task (throwing (Declared ()) :: int_program) (Task_value 0 0) ?w) 0 FAILURE (as_error ())"
    by blast
  have ne: "(Other () :: (unit, unit) exn) \<noteq> FutureAlreadyFulfilled \<and> (\<forall>e. (Other () :: (unit, unit) exn) \<noteq> Declared e)"
    by simp
  from spawn_closure_completes [of 0 ?w ?w 0 "throwing (Other ()) :: int_program" ?w 5 "()" "Other ()"] u x ne
  have 4: "completes_with (run_task (throwing (Other ()) :: int_program) (Task_value 0 0) ?w) 0 UNEXPECTED
       (contents (futures ?w 0))"
    by blast
  have rb: "ready (scheduler (blank :: int_world)) = [] \<and> tasks (scheduler (blank :: int_world)) = []"
    by (simp add: blank_def)
  have ca: "\<forall>w1. call_value (returning 5 :: int_program) 0 w1 = Return 5 w1"
    by (simp add: returning_def)
  note run = spawn_closure_completes [where call = 0 and w = "blank :: int_world"
      and prog = "returning 5 :: int_program" and v = 5 and n = 0 and ctx = 7,
      THEN conjunct2, THEN conjunct2, THEN conjunct2, THEN conjunct2, THEN conjunct2, THEN conjunct2,
      THEN conjunct1, THEN mp, OF rb, THEN conjunct1, THEN mp, OF ca]
  have fa: "call_value (throwing FutureAlreadyFulfilled :: int_program) 0 ?w = Throw FutureAlreadyFulfilled ?w"
    by (simp add: throwing_def)
  note rethrow = spawn_closure_completes [of 0 _ ?w 0 "throwing FutureAlreadyFulfilled :: int_program" ?w,
      THEN conjunct2, THEN conjunct2, THEN conjunct2, THEN conjunct2, THEN conjunct2, THEN conjunct2,
      THEN conjunct2, THEN conjunct1, THEN mp, OF fa]
  from run
  have 5: "\<exists>w'. await (returning 5 :: int_program) (Suc (Suc 0)) 7 (fst (spawn 0 (blank :: int_world))) (snd (spawn 0 blank))
        = Return 5 w' \<and>
      state (futures w' (fst (spawn 0 (blank :: int_world)))) = SUCCESS \<and>
      scheduler w' = \<lparr>ready = [], tasks = []\<rparr>" .
  from u r rv d x 1 2 3 4 5 rb fa rethrow show ?thesis by (simp only: c simp_thms)
qed

text \<open>
  C3. \<^verbatim>\<open>await\<close> returns the stored value when the state is SUCCESS (the void one returns
  silently) and throws the stored error when it is FAILURE. When the state is
  UNRESOLVED it links a cell holding the context of the caller in front of the old
  head, enters \<^verbatim>\<open>waitUntilReady\<close> in the state so changed, and calls \<^verbatim>\<open>await\<close> again on the
  state in which it is resumed: when the loop jumps to the caller's context, the result
  is that of \<^verbatim>\<open>await\<close> on the state at that jump; when the loop jumps to another context,
  the caller stays suspended.
\<close>

theorem await_dispatches_on_state:
  "(state (futures w this) = SUCCESS \<longrightarrow>
      await prog (Suc n) ctx this w = Return (result (contents (futures w this))) w \<and>
      await_void prog (Suc n) ctx this w = Return () w) \<and>
   (state (futures w this) = FAILURE \<longrightarrow>
      await prog (Suc n) ctx this w = Throw (Declared (error (contents (futures w this)))) w \<and>
      await_void prog (Suc n) ctx this w = Throw (Declared (error (contents (futures w this)))) w) \<and>
   (state (futures w this) = UNRESOLVED \<longrightarrow>
      contents (futures (link_waiter ctx this w) this)
        = as_cons (Some (FContextCons ctx (cons (contents (futures w this))))) \<and>
      await prog (Suc n) ctx this w
        = and_then (waitUntilReady prog n ctx (link_waiter ctx this w))
            (\<lambda>_ w'. await prog n ctx this w') \<and>
      await_void prog (Suc n) ctx this w
        = and_then (waitUntilReady prog n ctx (link_waiter ctx this w))
            (\<lambda>_ w'. await_void prog n ctx this w') \<and>
      (loop prog n (link_waiter ctx this w) = Jumped ctx w' \<longrightarrow>
         await prog (Suc n) ctx this w = await prog n ctx this w' \<and>
         await_void prog (Suc n) ctx this w = await_void prog n ctx this w') \<and>
      (loop prog n (link_waiter ctx this w) = Jumped c w' \<and> c \<noteq> ctx \<longrightarrow>
         await prog (Suc n) ctx this w = Jumped c w' \<and>
         await_void prog (Suc n) ctx this w = Jumped c w'))"
  by (simp add: contents_link_waiter waitUntilReady_eq)

theorem await_dispatches_on_state_witness:
  "state (futures (snd (spawn 0 (blank :: int_world))) 0) = UNRESOLVED \<and>
   link_waiter 7 0 (snd (spawn 0 blank)) = waiting_7 \<and>
   loop (returning 5 :: int_program) (Suc 0) waiting_7 = Jumped 7 resumed_5 \<and>
   state (futures resumed_5 0) = SUCCESS \<and>
   await (returning 5 :: int_program) (Suc 0) 7 0 resumed_5 = Return 5 resumed_5 \<and>
   await (returning 5 :: int_program) (Suc (Suc 0)) 7 0 (snd (spawn 0 blank)) = Return 5 resumed_5"
proof -
  have u: "state (futures (snd (spawn 0 (blank :: int_world))) 0) = UNRESOLVED"
    by (simp add: spawn_def new_Future_def push_task_def blank_def)
  have l: "loop (returning 5 :: int_program) (Suc 0) (link_waiter 7 0 (snd (spawn 0 blank))) = Jumped 7 resumed_5"
    using loop_returning by (simp add: waiting_7_def resumed_5_def)
  have s: "state (futures resumed_5 0) = SUCCESS" by (simp add: resumed_5_future)
  from await_dispatches_on_state [of resumed_5 0 "returning 5 :: int_program" 0 7] s
  have a1: "await (returning 5 :: int_program) (Suc 0) 7 0 resumed_5 = Return 5 resumed_5"
    by (simp add: resumed_5_future)
  from await_dispatches_on_state [of "snd (spawn 0 blank)" 0 "returning 5 :: int_program" "Suc 0" 7 resumed_5] u l
  have "await (returning 5 :: int_program) (Suc (Suc 0)) 7 0 (snd (spawn 0 blank))
      = await (returning 5 :: int_program) (Suc 0) 7 0 resumed_5"
    by blast
  with a1 u l s show ?thesis by (simp add: waiting_7_def)
qed

text \<open>
  C4, as stated, fails: \<^verbatim>\<open>setResult\<close> calls \<^verbatim>\<open>complete\<close> first, and \<^verbatim>\<open>complete\<close> calls
  \<^verbatim>\<open>notifyReady\<close>. For the Future at address 0 with the waiter 7, in the state in which
  \<^verbatim>\<open>complete\<close> returns the context 7 is already in \<^verbatim>\<open>ready\<close>, and the Future is still
  UNRESOLVED with its list as its contents: the transition and the payload follow the
  call of \<^verbatim>\<open>notifyReady\<close>.
\<close>

theorem notify_precedes_transition:
  "complete 0 waiting_7 = (Return () (notified 0 waiting_7) :: unit int_outcome) \<and>
   ready (scheduler waiting_7) = [] \<and>
   ready (scheduler (notified 0 waiting_7)) = [7] \<and>
   state (futures (notified 0 waiting_7) 0) = UNRESOLVED \<and>
   contents (futures (notified 0 waiting_7) 0) = as_cons (Some (FContextCons 7 None)) \<and>
   setResult 0 5 waiting_7
     = (Return () (set_contents 0 (as_result 5) (set_state 0 SUCCESS (notified 0 waiting_7))) :: unit int_outcome)"
  by (simp add: complete_unresolved setResult_unresolved waiting_7_eval ready_notified)

text \<open>
  C4, amended. Every completion operation on an unresolved Future first calls
  \<^verbatim>\<open>complete\<close>, which hands the waiters to \<^verbatim>\<open>notifyReady\<close> and changes no Future, and then
  writes the state and the payload into the state that \<^verbatim>\<open>complete\<close> left.
  \<^verbatim>\<open>notifyReady\<close> only appends to \<^verbatim>\<open>ready\<close> and resumes nobody, so both writes are done
  when the operation returns, and a waiter that enters \<^verbatim>\<open>await\<close> afterwards sees the final
  state: the value, the error, or the unexpected handler.
\<close>

theorem transition_follows_notify:
  "state (futures w this) = UNRESOLVED \<longrightarrow>
     complete this w = Return () (notified this w) \<and>
     futures (notified this w) = futures w \<and>
     ready (scheduler (notified this w))
       = ready (scheduler w) @ waiters (cons (contents (futures w this))) \<and>
     (\<exists>w'. setResult this v w = Return () w' \<and>
        w' = set_contents this (as_result v) (set_state this SUCCESS (notified this w)) \<and>
        await prog (Suc n) ctx this w' = Return v w') \<and>
     (\<exists>w'. setError this e w = Return () w' \<and>
        w' = set_contents this (as_error e) (set_state this FAILURE (notified this w)) \<and>
        await prog (Suc n) ctx this w' = Throw (Declared e) w' \<and>
        await_void prog (Suc n) ctx this w' = Throw (Declared e) w') \<and>
     (\<exists>w'. setUnexpected this w = Return () w' \<and>
        w' = set_state this UNEXPECTED (notified this w) \<and>
        await prog (Suc n) ctx this w' = Abort Std_unexpected \<and>
        await_void prog (Suc n) ctx this w' = Abort Std_unexpected) \<and>
     (\<exists>w'. setResult_void this w = Return () w' \<and>
        w' = set_state this SUCCESS (notified this w) \<and>
        await_void prog (Suc n) ctx this w' = Return () w')"
  by (simp add: complete_unresolved setResult_unresolved setError_unresolved setUnexpected_unresolved
      setResult_void_unresolved ready_notified)

theorem transition_follows_notify_witness:
  "state (futures waiting_7 0) = UNRESOLVED \<and>
   complete 0 waiting_7 = (Return () (notified 0 waiting_7) :: unit int_outcome) \<and>
   ready (scheduler (notified 0 waiting_7)) = [7] \<and>
   (\<exists>w'. setResult 0 5 waiting_7 = (Return () w' :: unit int_outcome) \<and>
      w' = set_contents 0 (as_result 5) (set_state 0 SUCCESS (notified 0 waiting_7)) \<and>
      await (returning 5 :: int_program) (Suc 0) 7 0 w' = Return 5 w')"
proof -
  have h: "state (futures waiting_7 0) = UNRESOLVED"
    by (simp add: waiting_7_eval)
  have r: "ready (scheduler waiting_7) @ waiters (cons (contents (futures waiting_7 0))) = [7]"
    by (simp add: waiting_7_eval)
  note t = transition_follows_notify [of waiting_7 0 5 "returning 5 :: int_program" 0 7 "()",
      THEN mp, OF h, unfolded r]
  from t h show ?thesis by blast
qed

text \<open>
  C5, as stated, fails: on a Scheduler with empty queues the callback throws an
  exception that is not FutureAlreadyFulfilled; it leaves the \<^verbatim>\<open>noexcept\<close> function
  \<^verbatim>\<open>loop\<close>, and the process is terminated, with no FutureAlreadyFulfilled raised and
  without the message of the handler.
\<close>

theorem loop_terminates_on_callback_exception:
  "ready (scheduler (blank :: int_world)) = [] \<and> tasks (scheduler (blank :: int_world)) = [] \<and>
   innerCallback (throwing (Other ()) :: int_program) blank = Throw (Other ()) blank \<and>
   loop (throwing (Other ()) :: int_program) (Suc 0) blank = Abort Std_terminate"
proof -
  have "snd (poll (throwing (Other ()) :: int_program) (Suc 0) blank) = Throw (Other ()) blank"
    by (simp only: poll_throwing snd_conv)
  from loop_after_poll_Throw [OF this] show ?thesis
    by (simp add: blank_def throwing_def)
qed

text \<open>
  C5, amended. An exception that ends the polling loop was thrown by the task or the
  callback of a pass that started with \<^verbatim>\<open>ready\<close> empty, and it terminates the process:
  with the message of the handler when it is a FutureAlreadyFulfilled, without it
  otherwise, since \<^verbatim>\<open>loop\<close> is \<^verbatim>\<open>noexcept\<close>. The loop itself neither returns nor lets an
  exception through.
\<close>

theorem loop_ends_on_exception:
  "(snd (poll prog n w) = Throw x w' \<longrightarrow>
      (\<exists>w0. ready (scheduler w0) = [] \<and> snd (loop_body prog w0) = Throw x w') \<and>
      loop prog n w =
        Abort (case x of FutureAlreadyFulfilled \<Rightarrow> Std_terminate_diagnostic | _ \<Rightarrow> Std_terminate)) \<and>
   (ready (scheduler w) = [] \<and> snd (loop_body prog w) = Throw x w' \<longrightarrow>
      loop prog (Suc n) w =
        Abort (case x of FutureAlreadyFulfilled \<Rightarrow> Std_terminate_diagnostic | _ \<Rightarrow> Std_terminate)) \<and>
   loop prog n w \<noteq> Throw x w' \<and> loop prog n w \<noteq> Return u w'"
proof -
  have "snd (poll prog (Suc n) w) = Throw x w'"
    if "ready (scheduler w) = []" and "snd (loop_body prog w) = Throw x w'"
    using that by (simp add: poll_step del: poll.simps)
  then show ?thesis
    using poll_Throw_pass [of prog n w x w'] loop_after_poll_Throw [of prog n w x w']
      loop_after_poll_Throw [of prog "Suc n" w x w'] loop_never_returns [of prog n w]
    by blast
qed

theorem loop_ends_on_exception_witness:
  "ready (scheduler (blank :: int_world)) = [] \<and>
   snd (loop_body (throwing FutureAlreadyFulfilled :: int_program) blank) = Throw FutureAlreadyFulfilled blank \<and>
   loop (throwing FutureAlreadyFulfilled :: int_program) (Suc 0) blank = Abort Std_terminate_diagnostic \<and>
   snd (loop_body (throwing FutureAlreadyFulfilled_ptr :: int_program) blank) = Throw FutureAlreadyFulfilled_ptr blank \<and>
   loop (throwing FutureAlreadyFulfilled_ptr :: int_program) (Suc 0) blank = Abort Std_terminate"
proof -
  have r: "ready (scheduler (blank :: int_world)) = []" by (simp add: blank_def)
  have b: "snd (loop_body (throwing x :: int_program) blank) = Throw x blank" for x
    by (simp add: loop_body_def blank_def throwing_def)
  from loop_ends_on_exception [of "throwing FutureAlreadyFulfilled :: int_program" 0 blank
      FutureAlreadyFulfilled blank "()"] r b [of FutureAlreadyFulfilled]
  have 1: "loop (throwing FutureAlreadyFulfilled :: int_program) (Suc 0) blank = Abort Std_terminate_diagnostic"
    by (simp del: poll.simps)
  from loop_ends_on_exception [of "throwing FutureAlreadyFulfilled_ptr :: int_program" 0 blank
      FutureAlreadyFulfilled_ptr blank "()"] r b [of FutureAlreadyFulfilled_ptr]
  have 2: "loop (throwing FutureAlreadyFulfilled_ptr :: int_program) (Suc 0) blank = Abort Std_terminate"
    by (simp del: poll.simps)
  from r b 1 2 show ?thesis by simp
qed

text \<open>
  C6. When the callable throws FutureAlreadyFulfilled, the closure of either overload
  throws it on, in the very state the callable left: the Future is not touched. So a
  closure that returns normally, having completed its Future, did not get a
  FutureAlreadyFulfilled from its callable.
\<close>

theorem closure_rethrows_FutureAlreadyFulfilled:
  "(call_value prog call w = Throw FutureAlreadyFulfilled w1 \<longrightarrow>
      run_task prog (Task_value fut call) w = Throw FutureAlreadyFulfilled w1) \<and>
   (call_void prog call w = Throw FutureAlreadyFulfilled w1 \<longrightarrow>
      run_task prog (Task_void fut call) w = Throw FutureAlreadyFulfilled w1) \<and>
   (run_task prog (Task_value fut call) w = Return u w2 \<longrightarrow>
      (\<forall>w1. call_value prog call w \<noteq> Throw FutureAlreadyFulfilled w1)) \<and>
   (run_task prog (Task_void fut call) w = Return u w2 \<longrightarrow>
      (\<forall>w1. call_void prog call w \<noteq> Throw FutureAlreadyFulfilled w1))"
  by (auto simp add: closure_value_Throw closure_void_Throw)

theorem closure_rethrows_FutureAlreadyFulfilled_witness:
  "call_value (throwing FutureAlreadyFulfilled :: int_program) 0 (pop_task waiting_7)
     = Throw FutureAlreadyFulfilled (pop_task waiting_7) \<and>
   run_task (throwing FutureAlreadyFulfilled :: int_program) (Task_value 0 0) (pop_task waiting_7)
     = Throw FutureAlreadyFulfilled (pop_task waiting_7) \<and>
   call_void (throwing FutureAlreadyFulfilled :: int_program) 0 (pop_task waiting_7)
     = Throw FutureAlreadyFulfilled (pop_task waiting_7) \<and>
   run_task (throwing FutureAlreadyFulfilled :: int_program) (Task_void 0 0) (pop_task waiting_7)
     = Throw FutureAlreadyFulfilled (pop_task waiting_7)"
proof -
  have v: "call_value (throwing FutureAlreadyFulfilled :: int_program) 0 (pop_task waiting_7)
     = Throw FutureAlreadyFulfilled (pop_task waiting_7)"
    and u: "call_void (throwing FutureAlreadyFulfilled :: int_program) 0 (pop_task waiting_7)
     = Throw FutureAlreadyFulfilled (pop_task waiting_7)"
    by (simp_all add: throwing_def)
  from closure_rethrows_FutureAlreadyFulfilled
    [of "throwing FutureAlreadyFulfilled :: int_program" 0 "pop_task waiting_7" "pop_task waiting_7" 0]
    v u
  show ?thesis by blast
qed






text \<open>
  C9, as stated, fails: \<^verbatim>\<open>setUnexpected\<close> writes the state only. For the Future at address 0
  with the waiter 7, the state becomes UNEXPECTED and the contents are still the head of
  the list, the cell of the waiter 7 (whose context is by then in \<^verbatim>\<open>ready\<close>).
\<close>

theorem setUnexpected_keeps_list_head:
  "state (futures waiting_7 0) = UNRESOLVED \<and>
   setUnexpected 0 waiting_7 = (Return () (set_state 0 UNEXPECTED (notified 0 waiting_7)) :: unit int_outcome) \<and>
   state (futures (set_state 0 UNEXPECTED (notified 0 waiting_7)) 0) = UNEXPECTED \<and>
   contents (futures (set_state 0 UNEXPECTED (notified 0 waiting_7)) 0) = as_cons (Some (FContextCons 7 None)) \<and>
   ready (scheduler (set_state 0 UNEXPECTED (notified 0 waiting_7))) = [7]"
  by (simp add: setUnexpected_unresolved waiting_7_eval ready_notified)

text \<open>
  C9, amended. A completion operation on an unresolved Future appends the contexts of
  all its waiters, head to tail, to \<^verbatim>\<open>ready\<close> and leaves the state other than UNRESOLVED.
  \<^verbatim>\<open>setResult(v)\<close> and \<^verbatim>\<open>setError(e)\<close> overwrite the head of the list with the payload;
  \<^verbatim>\<open>setUnexpected\<close> and the void \<^verbatim>\<open>setResult()\<close> leave the contents as they are.
\<close>

theorem completion_hands_over_waiters:
  "state (futures w this) = UNRESOLVED \<and>
   queue = ready (scheduler w) @ waiters (cons (contents (futures w this))) \<longrightarrow>
     (\<exists>w'. setResult this v w = Return () w' \<and> state (futures w' this) = SUCCESS \<and>
        contents (futures w' this) = as_result v \<and> ready (scheduler w') = queue) \<and>
     (\<exists>w'. setError this e w = Return () w' \<and> state (futures w' this) = FAILURE \<and>
        contents (futures w' this) = as_error e \<and> ready (scheduler w') = queue) \<and>
     (\<exists>w'. setUnexpected this w = Return () w' \<and> state (futures w' this) = UNEXPECTED \<and>
        contents (futures w' this) = contents (futures w this) \<and> ready (scheduler w') = queue) \<and>
     (\<exists>w'. setResult_void this w = Return () w' \<and> state (futures w' this) = SUCCESS \<and>
        contents (futures w' this) = contents (futures w this) \<and> ready (scheduler w') = queue)"
  by (simp add: setResult_unresolved setError_unresolved setUnexpected_unresolved
      setResult_void_unresolved ready_notified)

theorem completion_hands_over_waiters_witness:
  "state (futures waiting_7 0) = UNRESOLVED \<and>
   ready (scheduler waiting_7) @ waiters (cons (contents (futures waiting_7 0))) = [7] \<and>
   contents (futures waiting_7 0) = as_cons (Some (FContextCons 7 None)) \<and>
   (\<exists>w'. setResult 0 5 waiting_7 = (Return () w' :: unit int_outcome) \<and>
      state (futures w' 0) = SUCCESS \<and> contents (futures w' 0) = as_result 5 \<and>
      ready (scheduler w') = [7]) \<and>
   (\<exists>w'. setUnexpected 0 waiting_7 = (Return () w' :: unit int_outcome) \<and>
      state (futures w' 0) = UNEXPECTED \<and>
      contents (futures w' 0) = as_cons (Some (FContextCons 7 None)) \<and>
      ready (scheduler w') = [7])"
proof -
  have c: "contents (futures waiting_7 0) = as_cons (Some (FContextCons 7 None))"
    by (simp add: waiting_7_eval)
  have q: "ready (scheduler waiting_7) @ waiters (cons (contents (futures waiting_7 0))) = [7]"
    by (simp add: waiting_7_eval)
  have h: "state (futures waiting_7 0) = UNRESOLVED \<and>
      [7] = ready (scheduler waiting_7) @ waiters (cons (contents (futures waiting_7 0)))"
    by (simp add: waiting_7_eval)
  note t = completion_hands_over_waiters [of waiting_7 0 "[7]" 5 "()", THEN mp, OF h, unfolded c]
  from t h q c show ?thesis by blast
qed

text \<open>
  C10. The front of \<^verbatim>\<open>ready\<close> is taken only when \<^verbatim>\<open>ready\<close> is not empty. When the polling
  loop ends normally, \<^verbatim>\<open>ready\<close> is not empty in the state it ends in, and the loop jumps
  to its front and pops it. When an exception ends the polling loop, the process is
  terminated (by the handler or because the function is \<^verbatim>\<open>noexcept\<close>) and the front is
  not taken. So, unless a callable of the program itself ends there, the loop never
  ends in the front of an empty deque.
\<close>

theorem front_only_when_ready:
  "(snd (poll prog n w) = Return u w' \<longrightarrow>
      ready (scheduler w') \<noteq> [] \<and>
      loop prog n w =
        Jumped (hd (ready (scheduler w')))
          (w'\<lparr>scheduler := (scheduler w')\<lparr>ready := tl (ready (scheduler w'))\<rparr>\<rparr>)) \<and>
   (snd (poll prog n w) = Throw x w'' \<longrightarrow>
      loop prog n w = Abort Std_terminate_diagnostic \<or> loop prog n w = Abort Std_terminate) \<and>
   (front_safe prog \<longrightarrow> loop prog n w \<noteq> Abort Front_of_empty_deque)"
proof (intro conjI impI)
  assume "snd (poll prog n w) = Return u w'"
  then show "ready (scheduler w') \<noteq> []" by (rule poll_Return_ready)
next
  assume "snd (poll prog n w) = Return u w'"
  then show "loop prog n w =
        Jumped (hd (ready (scheduler w')))
          (w'\<lparr>scheduler := (scheduler w')\<lparr>ready := tl (ready (scheduler w'))\<rparr>\<rparr>)"
    by (rule loop_after_poll_Return)
next
  assume "snd (poll prog n w) = Throw x w''"
  from loop_after_poll_Throw [OF this]
  show "loop prog n w = Abort Std_terminate_diagnostic \<or> loop prog n w = Abort Std_terminate"
    by (cases x) simp_all
next
  assume "front_safe prog"
  then show "loop prog n w \<noteq> Abort Front_of_empty_deque" by (rule loop_front_safe)
qed

theorem front_only_when_ready_witness:
  "snd (poll (returning 5 :: int_program) (Suc 0) waiting_7) = Return () resolved_5 \<and>
   ready (scheduler resolved_5) = [7] \<and>
   loop (returning 5 :: int_program) (Suc 0) waiting_7
     = Jumped 7 (resolved_5\<lparr>scheduler := (scheduler resolved_5)\<lparr>ready := []\<rparr>\<rparr>) \<and>
   snd (poll (throwing (Other ()) :: int_program) (Suc 0) blank) = Throw (Other ()) blank \<and>
   loop (throwing (Other ()) :: int_program) (Suc 0) blank = Abort Std_terminate \<and>
   front_safe (returning 5 :: int_program) \<and>
   loop (returning 5 :: int_program) (Suc 0) waiting_7 \<noteq> Abort Front_of_empty_deque"
proof -
  have r: "snd (poll (returning 5 :: int_program) (Suc 0) waiting_7) = Return () resolved_5"
    by (simp only: poll_returning snd_conv)
  have t: "snd (poll (throwing (Other ()) :: int_program) (Suc 0) blank) = Throw (Other ()) blank"
    by (simp only: poll_throwing snd_conv)
  have l: "loop (throwing (Other ()) :: int_program) (Suc 0) blank = Abort Std_terminate"
    by (simp add: loop_def t del: poll.simps)
  from front_only_when_ready [of "returning 5 :: int_program" "Suc 0" waiting_7 "()" resolved_5]
  show ?thesis
    by (simp add: r t l ready_resolved_5 front_safe_returning del: poll.simps)
qed

end
